theory Spec2Isabelle
  imports Main
begin

section \<open>The CarShop mock API (server.js)\<close>

text \<open>
  A shallow embedding of \<^verbatim>\<open>server.js\<close>: the fixture collections, the
  \<^verbatim>\<open>fakeAuth\<close> middleware, the validation chains of the two POST routes and the
  five route handlers. A request is handled by a pure function of the fixture store, the
  clock reading \<^verbatim>\<open>Date.now()\<close> and the request; it returns the response, what the
  handler printed with \<^verbatim>\<open>console.log\<close>, and the store it leaves behind.

  Outside the embedding: the CORS middleware (it only adds response headers), the JSON
  body parser (a request carries its parsed body), Express's path matching (a request
  names one of the five registered routes) and the serialisation of a response body to
  bytes (a response carries the value given to \<^verbatim>\<open>res.json\<close>).
\<close>

subsection \<open>JSON payloads\<close>

text \<open>
  The value of a field of a request body: a JSON scalar, or an array of such values.
  Numbers are the integers. A field that holds an object is not represented: how it is
  turned into a string depends on the members the object itself brings (a \<^verbatim>\<open>toString\<close>
  or \<^verbatim>\<open>valueOf\<close> of its own), and no route of the server reads into one.
\<close>

datatype json = JNull | JBool bool | JNum int | JStr string | JArr "json list"

text \<open>\<^verbatim>\<open>req.body\<close>: a field that is absent reads as \<^verbatim>\<open>undefined\<close>, here \<open>None\<close>.\<close>

type_synonym payload = "string \<rightharpoonup> json"

subsection \<open>The fake database\<close>

record user =
  user_id :: string
  user_name :: string
  user_email :: string
  user_role :: string
  user_profileId :: string

record car =
  car_id :: string
  car_make :: string
  car_model :: string
  car_year :: int
  car_color :: string
  car_licensePlate :: string
  car_carType :: "string option"

record customer =
  customer_id :: string
  customer_name :: string
  customer_email :: string
  customer_phone :: string
  customer_address :: string
  customer_cars :: "car list"

record offering =
  offering_id :: string
  offering_name :: string
  offering_description :: string
  offering_durationMins :: int
  offering_prices :: "(string \<times> int) list"

text \<open>
  \<open>appointment_scheduledTime\<close> is the instant in milliseconds since the epoch; the
  source keeps its \<^verbatim>\<open>toISOString()\<close> rendering, a function of the instant.
\<close>

record appointment =
  appointment_id :: string
  appointment_scheduledTime :: int
  appointment_status :: string
  appointment_totalCost :: int
  appointment_customer :: customer
  appointment_car :: car
  appointment_offering :: offering

record store =
  users :: "string \<rightharpoonup> user"
  cars :: "string \<rightharpoonup> car"
  customers :: "string \<rightharpoonup> customer"
  offerings :: "offering list"
  appointments :: "appointment list"

definition user_1 :: user where
  "user_1 = \<lparr>user_id = ''user-1'', user_name = ''John Customer'',
     user_email = ''customer@carshop.com'', user_role = ''CUSTOMER'',
     user_profileId = ''cust-1''\<rparr>"

definition user_2 :: user where
  "user_2 = \<lparr>user_id = ''user-2'', user_name = ''Jane Doe'',
     user_email = ''employee@carshop.com'', user_role = ''EMPLOYEE'',
     user_profileId = ''emp-1''\<rparr>"

definition user_3 :: user where
  "user_3 = \<lparr>user_id = ''user-3'', user_name = ''Shop Owner'',
     user_email = ''owner@carshop.com'', user_role = ''OWNER'',
     user_profileId = ''owner-1''\<rparr>"

definition car_1 :: car where
  "car_1 = \<lparr>car_id = ''car-1'', car_make = ''Honda'', car_model = ''City'',
     car_year = 2023, car_color = ''White'', car_licensePlate = ''MH14XY5678'',
     car_carType = Some ''SEDAN''\<rparr>"

definition car_2 :: car where
  "car_2 = \<lparr>car_id = ''car-2'', car_make = ''Maruti'', car_model = ''Swift'',
     car_year = 2022, car_color = ''Red'', car_licensePlate = ''MH12AB1234'',
     car_carType = Some ''HATCHBACK''\<rparr>"

definition cust_1 :: customer where
  "cust_1 = \<lparr>customer_id = ''cust-1'', customer_name = ''John Customer'',
     customer_email = ''customer@carshop.com'', customer_phone = ''9876543210'',
     customer_address = ''123 Main St, Pune'', customer_cars = [car_1, car_2]\<rparr>"

definition offering_1 :: offering where
  "offering_1 = \<lparr>offering_id = ''offering-1'', offering_name = ''Premium Wash'',
     offering_description = ''Full exterior and interior cleaning.'',
     offering_durationMins = 45,
     offering_prices = [(''HATCHBACK'', 300), (''SEDAN'', 350), (''SUV'', 400)]\<rparr>"

definition offering_2 :: offering where
  "offering_2 = \<lparr>offering_id = ''offering-2'', offering_name = ''Ceramic Coating (3 Year)'',
     offering_description = ''Full body ceramic coating.'',
     offering_durationMins = 2880,
     offering_prices = [(''HATCHBACK'', 20000), (''SEDAN'', 25000), (''SUV'', 30000)]\<rparr>"

definition offering_3 :: offering where
  "offering_3 = \<lparr>offering_id = ''offering-3'', offering_name = ''PPF - Full Front'',
     offering_description = ''Paint Protection Film.'',
     offering_durationMins = 600,
     offering_prices = [(''HATCHBACK'', 35000), (''SEDAN'', 40000), (''SUV'', 45000)]\<rparr>"

text \<open>The one appointment is three days after \<open>t0\<close>, the clock reading when the module loads.\<close>

definition appt_1 :: "int \<Rightarrow> appointment" where
  "appt_1 t0 = \<lparr>appointment_id = ''appt-1'',
     appointment_scheduledTime = t0 + 3 * 24 * 60 * 60 * 1000,
     appointment_status = ''SCHEDULED'', appointment_totalCost = 350,
     appointment_customer = cust_1, appointment_car = car_1,
     appointment_offering = offering_1\<rparr>"

definition fixtures :: "int \<Rightarrow> store" where
  "fixtures t0 = \<lparr>
     users = [''customer@carshop.com'' \<mapsto> user_1, ''employee@carshop.com'' \<mapsto> user_2,
              ''owner@carshop.com'' \<mapsto> user_3],
     cars = [''car-1'' \<mapsto> car_1, ''car-2'' \<mapsto> car_2],
     customers = [''cust-1'' \<mapsto> cust_1],
     offerings = [offering_1, offering_2, offering_3],
     appointments = [appt_1 t0]\<rparr>"

subsection \<open>Property reads on a plain object\<close>

text \<open>
  \<^verbatim>\<open>users\<close> and \<^verbatim>\<open>customers\<close> are object literals, so \<^verbatim>\<open>users[k]\<close> reads an own
  property when there is one and otherwise follows the prototype chain to
  \<^verbatim>\<open>Object.prototype\<close>, whose members are functions (and, for \<^verbatim>\<open>__proto__\<close>, the
  prototype object itself): all of them truthy. Only a name found in neither place reads
  as \<^verbatim>\<open>undefined\<close>.
\<close>

definition object_prototype_keys :: "string list" where
  "object_prototype_keys =
     [''constructor'', ''__defineGetter__'', ''__defineSetter__'', ''hasOwnProperty'',
      ''__lookupGetter__'', ''__lookupSetter__'', ''isPrototypeOf'',
      ''propertyIsEnumerable'', ''toString'', ''valueOf'', ''__proto__'',
      ''toLocaleString'']"

datatype 'a js_prop = Own 'a | Inherited string | Undefined

definition js_get :: "(string \<rightharpoonup> 'a) \<Rightarrow> string \<Rightarrow> 'a js_prop" where
  "js_get obj k =
     (case obj k of
        Some v \<Rightarrow> Own v
      | None \<Rightarrow> if k \<in> set object_prototype_keys then Inherited k else Undefined)"

subsection \<open>Responses\<close>

text \<open>
  An entry of \<^verbatim>\<open>errors.array()\<close>, which the two POST handlers send as they get it from
  express-validator: \<^verbatim>\<open>{type, value, msg, path, location}\<close>. \<open>err_value\<close> is the value
  that failed, \<open>None\<close> when it is \<^verbatim>\<open>undefined\<close> (the key is then left out of the JSON
  text); \<open>err_msg\<close> is the message given with \<^verbatim>\<open>withMessage\<close> and \<open>err_path\<close> the
  field that the chain names.
\<close>

record validation_error =
  err_type :: string
  err_value :: "json option"
  err_msg :: string
  err_path :: string
  err_location :: string

text \<open>
  What a handler passes to \<^verbatim>\<open>res.json\<close>. \<open>Member k\<close> is the member \<open>k\<close> of
  \<^verbatim>\<open>Object.prototype\<close>, which is what a read through the prototype chain hands over.
\<close>

datatype reply =
    Message string
  | Errors "validation_error list"
  | Profile customer
  | Member string
  | OfferingList "offering list"
  | AppointmentList "appointment list"
  | NewCar payload

type_synonym response = "nat \<times> reply"

text \<open>The lines a handler writes with \<^verbatim>\<open>console.log\<close>.\<close>

datatype log_line = AddingCar payload | CreatingAppointment payload

record outcome =
  response :: response
  console :: "log_line list"
  store_after :: store

subsection \<open>The fake authentication middleware\<close>

text \<open>
  \<^verbatim>\<open>req.user\<close>: a user record of the store, or a member of \<^verbatim>\<open>Object.prototype\<close>,
  which has no \<^verbatim>\<open>role\<close> and no \<^verbatim>\<open>profileId\<close>.
\<close>

datatype identity = Account user | ProtoMember string

text \<open>A middleware ends the request with a response, or calls \<^verbatim>\<open>next()\<close>.\<close>

datatype 'a step = Responded response | Next 'a

definition unauthorized :: response where
  "unauthorized =
     (401, Message ''Unauthorized: Please provide a valid 'x-user-email' header.'')"

definition fakeAuth :: "store \<Rightarrow> string option \<Rightarrow> identity step" where
  "fakeAuth st header =
     (case header of
        None \<Rightarrow> Responded unauthorized
      | Some userEmail \<Rightarrow>
          if userEmail = [] then Responded unauthorized
          else (case js_get (users st) userEmail of
                  Undefined \<Rightarrow> Responded unauthorized
                | Own u \<Rightarrow> Next (Account u)
                | Inherited k \<Rightarrow> Next (ProtoMember k)))"

text \<open>\<^verbatim>\<open>req.user.role\<close>; \<open>None\<close> is \<^verbatim>\<open>undefined\<close>.\<close>

fun role_of :: "identity \<Rightarrow> string option" where
  "role_of (Account u) = Some (user_role u)"
| "role_of (ProtoMember k) = None"

text \<open>
  The property key that \<^verbatim>\<open>customers[req.user.profileId]\<close> reads: \<^verbatim>\<open>undefined\<close> as a
  key is the string \<^verbatim>\<open>undefined\<close>.
\<close>

fun profile_key :: "identity \<Rightarrow> string" where
  "profile_key (Account u) = user_profileId u"
| "profile_key (ProtoMember k) = ''undefined''"

subsection \<open>Numbers as text\<close>

text \<open>
  \<^verbatim>\<open>String(n)\<close> and the template literal \<^verbatim>\<open>`car-${n}`\<close> write an integer in decimal.
\<close>

definition digit_char :: "nat \<Rightarrow> char" where
  "digit_char d = ''0123456789'' ! d"

fun show_nat :: "nat \<Rightarrow> string" where
  "show_nat n = (if n < 10 then [digit_char n] else show_nat (n div 10) @ [digit_char (n mod 10)])"

declare show_nat.simps [simp del]

definition show_int :: "int \<Rightarrow> string" where
  "show_int i = (if i < 0 then CHR ''-'' # show_nat (nat (- i)) else show_nat (nat i))"

definition digit_value :: "char \<Rightarrow> int option" where
  "digit_value = map_of
     [(CHR ''0'', 0), (CHR ''1'', 1), (CHR ''2'', 2), (CHR ''3'', 3), (CHR ''4'', 4),
      (CHR ''5'', 5), (CHR ''6'', 6), (CHR ''7'', 7), (CHR ''8'', 8), (CHR ''9'', 9)]"

fun digits_value :: "int \<Rightarrow> string \<Rightarrow> int option" where
  "digits_value acc [] = Some acc"
| "digits_value acc (c # cs) =
     (case digit_value c of
        None \<Rightarrow> None
      | Some d \<Rightarrow> digits_value (10 * acc + d) cs)"

text \<open>
  The strings that validator.js's \<^verbatim>\<open>isInt\<close> takes for integers (an optional sign, then
  one or more digits, leading zeroes allowed) and the number each of them denotes.
\<close>

definition int_literal :: "string \<Rightarrow> int option" where
  "int_literal s =
     (case s of
        [] \<Rightarrow> None
      | c # cs \<Rightarrow>
          if c = CHR ''-'' then (if cs = [] then None else map_option uminus (digits_value 0 cs))
          else if c = CHR ''+'' then (if cs = [] then None else digits_value 0 cs)
          else digits_value 0 s)"

subsection \<open>The validation chains\<close>

text \<open>
  What the server takes from its surroundings: the year when the routes are registered
  (\<^verbatim>\<open>new Date().getFullYear()\<close> is evaluated once, in the route declaration), validator.js's
  \<^verbatim>\<open>isISO8601\<close> on a string, and \<^verbatim>\<open>new Date(v).getHours()\<close> in the server's time
  zone, \<open>None\<close> when it is \<^verbatim>\<open>NaN\<close>.
\<close>

record runtime =
  startYear :: int
  isISO8601 :: "string \<Rightarrow> bool"
  getHours :: "json option \<Rightarrow> int option"

text \<open>
  \<^verbatim>\<open>String(v)\<close> on a value that came out of \<^verbatim>\<open>JSON.parse\<close>. An array is joined with
  commas, and \<^verbatim>\<open>null\<close> inside an array is written as nothing. Standing alone,
  \<^verbatim>\<open>null\<close> is not handed to \<^verbatim>\<open>String\<close>: express-validator gives the empty string for
  it, as it does for \<^verbatim>\<open>undefined\<close>.
\<close>

fun join_commas :: "string list \<Rightarrow> string" where
  "join_commas [] = []"
| "join_commas [s] = s"
| "join_commas (s # t # ss) = s @ '','' @ join_commas (t # ss)"

fun js_string :: "json \<Rightarrow> string" where
  "js_string JNull = []"
| "js_string (JBool b) = (if b then ''true'' else ''false'')"
| "js_string (JNum n) = show_int n"
| "js_string (JStr s) = s"
| "js_string (JArr xs) = join_commas (map js_string xs)"

text \<open>express-validator hands a validator the value as a string.\<close>

fun toString :: "json option \<Rightarrow> string" where
  "toString None = []"
| "toString (Some v) = js_string v"

datatype validator = NotEmpty | IsInt int int | IsISO8601

text \<open>One value against one validator of validator.js.\<close>

fun holds :: "runtime \<Rightarrow> validator \<Rightarrow> json option \<Rightarrow> bool" where
  "holds R NotEmpty v = (toString v \<noteq> [])"
| "holds R (IsInt lo hi) v =
     (case int_literal (toString v) of
        None \<Rightarrow> False
      | Some n \<Rightarrow> lo \<le> n \<and> n \<le> hi)"
| "holds R IsISO8601 v = isISO8601 R (toString v)"

text \<open>
  A chain checks the value of its field, or each element in turn when the value is an
  array: \<^verbatim>\<open>Array.isArray(value) ? value : [value]\<close>.
\<close>

fun values_of :: "json option \<Rightarrow> json option list" where
  "values_of (Some (JArr xs)) = map Some xs"
| "values_of v = [v]"

definition passes :: "runtime \<Rightarrow> validator \<Rightarrow> json option \<Rightarrow> bool" where
  "passes R c v = list_all (holds R c) (values_of v)"

text \<open>
  One chain \<^verbatim>\<open>body(field).validator().withMessage(message)\<close>. As a middleware it
  adds an error for each value that fails to the errors the request has collected, and
  always goes on to the next middleware.
\<close>

record rule =
  rule_field :: string
  rule_validator :: validator
  rule_message :: string

definition violated :: "runtime \<Rightarrow> payload \<Rightarrow> rule \<Rightarrow> bool" where
  "violated R b r = (\<not> passes R (rule_validator r) (b (rule_field r)))"

definition error_entry :: "rule \<Rightarrow> json option \<Rightarrow> validation_error" where
  "error_entry r v =
     \<lparr>err_type = ''field'', err_value = v, err_msg = rule_message r,
      err_path = rule_field r, err_location = ''body''\<rparr>"

definition chain_errors :: "runtime \<Rightarrow> payload \<Rightarrow> rule \<Rightarrow> validation_error list" where
  "chain_errors R b r =
     map (error_entry r)
       (filter (\<lambda>v. \<not> holds R (rule_validator r) v) (values_of (b (rule_field r))))"

definition run_chain :: "runtime \<Rightarrow> payload \<Rightarrow> validation_error list \<Rightarrow> rule \<Rightarrow> validation_error list" where
  "run_chain R b errs r = errs @ chain_errors R b r"

text \<open>\<^verbatim>\<open>validationResult(req).array()\<close> once the chains have run, in their order.\<close>

definition validationResult :: "runtime \<Rightarrow> rule list \<Rightarrow> payload \<Rightarrow> validation_error list" where
  "validationResult R rules b = foldl (run_chain R b) [] rules"

definition car_rules :: "runtime \<Rightarrow> rule list" where
  "car_rules R =
     [\<lparr>rule_field = ''make'', rule_validator = NotEmpty, rule_message = ''Make is required''\<rparr>,
      \<lparr>rule_field = ''model'', rule_validator = NotEmpty, rule_message = ''Model is required''\<rparr>,
      \<lparr>rule_field = ''year'', rule_validator = IsInt 1980 (startYear R + 1),
       rule_message = ''Please enter a valid year''\<rparr>,
      \<lparr>rule_field = ''color'', rule_validator = NotEmpty, rule_message = ''Color is required''\<rparr>,
      \<lparr>rule_field = ''licensePlate'', rule_validator = NotEmpty,
       rule_message = ''License plate is required''\<rparr>]"

definition appointment_rules :: "rule list" where
  "appointment_rules =
     [\<lparr>rule_field = ''carId'', rule_validator = NotEmpty,
       rule_message = ''Car selection is required''\<rparr>,
      \<lparr>rule_field = ''offeringId'', rule_validator = NotEmpty,
       rule_message = ''Service selection is required''\<rparr>,
      \<lparr>rule_field = ''scheduledTime'', rule_validator = IsISO8601,
       rule_message = ''A valid date and time is required''\<rparr>]"

subsection \<open>The route handlers\<close>

definition get_profile :: "store \<Rightarrow> identity \<Rightarrow> outcome" where
  "get_profile st u =
     (if role_of u \<noteq> Some ''CUSTOMER''
      then \<lparr>response = (403, Message ''Forbidden: Only customers can access this profile.''),
            console = [], store_after = st\<rparr>
      else (case js_get (customers st) (profile_key u) of
              Undefined \<Rightarrow>
                \<lparr>response = (404, Message ''Customer profile not found.''),
                 console = [], store_after = st\<rparr>
            | Own customerProfile \<Rightarrow>
                \<lparr>response = (200, Profile customerProfile), console = [], store_after = st\<rparr>
            | Inherited k \<Rightarrow>
                \<lparr>response = (200, Member k), console = [], store_after = st\<rparr>))"

definition get_profile_appointments :: "store \<Rightarrow> identity \<Rightarrow> outcome" where
  "get_profile_appointments st u =
     \<lparr>response = (200, AppointmentList (appointments st)), console = [], store_after = st\<rparr>"

definition get_offerings :: "store \<Rightarrow> identity \<Rightarrow> outcome" where
  "get_offerings st u =
     \<lparr>response = (200, OfferingList (offerings st)), console = [], store_after = st\<rparr>"

text \<open>
  \<^verbatim>\<open>{ id: `car-${Date.now()}`, ...req.body, carType: null }\<close>: the generated id first,
  the payload's fields over it, \<^verbatim>\<open>carType\<close> last.
\<close>

definition newCar :: "int \<Rightarrow> payload \<Rightarrow> payload" where
  "newCar now b = ([''id'' \<mapsto> JStr (''car-'' @ show_int now)] ++ b)(''carType'' \<mapsto> JNull)"

definition post_profile_cars :: "runtime \<Rightarrow> store \<Rightarrow> int \<Rightarrow> identity \<Rightarrow> payload \<Rightarrow> outcome" where
  "post_profile_cars R st now u b =
     (let errors = validationResult R (car_rules R) b in
      if errors \<noteq> []
      then \<lparr>response = (400, Errors errors), console = [], store_after = st\<rparr>
      else \<lparr>response = (201, NewCar (newCar now b)),
            console = [AddingCar (newCar now b)], store_after = st\<rparr>)"

text \<open>\<^verbatim>\<open>hour >= 10 && hour <= 12\<close>, false when the hour is \<^verbatim>\<open>NaN\<close>.\<close>

definition in_conflict_window :: "int option \<Rightarrow> bool" where
  "in_conflict_window hour = (case hour of None \<Rightarrow> False | Some h \<Rightarrow> 10 \<le> h \<and> h \<le> 12)"

definition slot_unavailable :: response where
  "slot_unavailable =
     (400, Message ''The selected time slot is unavailable. Please choose another time.'')"

definition booked :: response where
  "booked = (201, Message ''Appointment booked successfully!'')"

text \<open>
  The source tests \<^verbatim>\<open>req.body.offeringId === "offering-1"\<close> and, inside that branch, the
  hour; both tests are the one conjunction here. Either way out of the conflict the
  handler logs the payload and answers 201.
\<close>

definition post_appointments :: "runtime \<Rightarrow> store \<Rightarrow> identity \<Rightarrow> payload \<Rightarrow> outcome" where
  "post_appointments R st u b =
     (let errors = validationResult R appointment_rules b in
      if errors \<noteq> []
      then \<lparr>response = (400, Errors errors), console = [], store_after = st\<rparr>
      else if b ''offeringId'' = Some (JStr ''offering-1'')
              \<and> in_conflict_window (getHours R (b ''scheduledTime''))
      then \<lparr>response = slot_unavailable, console = [], store_after = st\<rparr>
      else \<lparr>response = booked, console = [CreatingAppointment b], store_after = st\<rparr>)"

subsection \<open>The application\<close>

datatype endpoint =
    GetProfile
  | GetProfileAppointments
  | GetOfferings
  | PostProfileCars
  | PostAppointments

record request =
  endpoint :: endpoint
  x_user_email :: "string option"
  body :: payload

text \<open>Every route runs \<^verbatim>\<open>fakeAuth\<close> first; its handler runs only after \<^verbatim>\<open>next()\<close>.\<close>

definition app :: "runtime \<Rightarrow> store \<Rightarrow> int \<Rightarrow> request \<Rightarrow> outcome" where
  "app R st now req =
     (case fakeAuth st (x_user_email req) of
        Responded r \<Rightarrow> \<lparr>response = r, console = [], store_after = st\<rparr>
      | Next u \<Rightarrow>
          (case endpoint req of
             GetProfile \<Rightarrow> get_profile st u
           | GetProfileAppointments \<Rightarrow> get_profile_appointments st u
           | GetOfferings \<Rightarrow> get_offerings st u
           | PostProfileCars \<Rightarrow> post_profile_cars R st now u (body req)
           | PostAppointments \<Rightarrow> post_appointments R st u (body req)))"

text \<open>The process serves requests one after the other, each at its own clock reading.\<close>

fun serve :: "runtime \<Rightarrow> store \<Rightarrow> (int \<times> request) list \<Rightarrow> store" where
  "serve R st [] = st"
| "serve R st ((now, req) # rest) = serve R (store_after (app R st now req)) rest"

definition is_get :: "request \<Rightarrow> bool" where
  "is_get req = (endpoint req \<in> {GetProfile, GetProfileAppointments, GetOfferings})"

subsection \<open>A sample runtime and sample requests\<close>

text \<open>
  The concrete cases below run on a sample runtime: routes registered in 2025, and a
  clock that reads local date-times written \<^verbatim>\<open>YYYY-MM-DDTHH:MM\<close>. validator.js accepts
  that form as ISO 8601, and \<^verbatim>\<open>new Date\<close> reads a date-time without an offset as local
  time, so its hour is the hour written. The sample runtime takes no other form.
\<close>

definition two_digits :: "string \<Rightarrow> int option" where
  "two_digits s = (if length s = 2 then digits_value 0 s else None)"

definition local_hour :: "string \<Rightarrow> int option" where
  "local_hour s =
     (if length s = 16 \<and> s ! 4 = CHR ''-'' \<and> s ! 7 = CHR ''-'' \<and> s ! 10 = CHR ''T''
         \<and> s ! 13 = CHR '':''
      then (case (digits_value 0 (take 4 s), two_digits (take 2 (drop 5 s)),
                  two_digits (take 2 (drop 8 s)), two_digits (take 2 (drop 11 s)),
                  two_digits (drop 14 s)) of
              (Some y, Some m, Some d, Some h, Some mi) \<Rightarrow>
                if 1 \<le> m \<and> m \<le> 12 \<and> 1 \<le> d \<and> d \<le> 31 \<and> h \<le> 23 \<and> mi \<le> 59
                then Some h else None
            | _ \<Rightarrow> None)
      else None)"

definition sample_runtime :: runtime where
  "sample_runtime = \<lparr>startYear = 2025,
     isISO8601 = (\<lambda>s. local_hour s \<noteq> None),
     getHours = (\<lambda>v. case v of Some (JStr s) \<Rightarrow> local_hour s | _ \<Rightarrow> None)\<rparr>"

definition booking :: "string \<Rightarrow> string \<Rightarrow> string \<Rightarrow> payload" where
  "booking carId offeringId scheduledTime =
     [''carId'' \<mapsto> JStr carId, ''offeringId'' \<mapsto> JStr offeringId,
      ''scheduledTime'' \<mapsto> JStr scheduledTime]"

definition signed_in :: "endpoint \<Rightarrow> string \<Rightarrow> payload \<Rightarrow> request" where
  "signed_in e userEmail b = \<lparr>endpoint = e, x_user_email = Some userEmail, body = b\<rparr>"

text \<open>The valid payload of a car registration, and a second one.\<close>

definition yaris :: payload where
  "yaris = [''make'' \<mapsto> JStr ''Toyota'', ''model'' \<mapsto> JStr ''Yaris'', ''year'' \<mapsto> JNum 2021,
            ''color'' \<mapsto> JStr ''Blue'', ''licensePlate'' \<mapsto> JStr ''MH01AA0001'']"

definition jazz :: payload where
  "jazz = [''make'' \<mapsto> JStr ''Honda'', ''model'' \<mapsto> JStr ''Jazz'', ''year'' \<mapsto> JNum 2020,
           ''color'' \<mapsto> JStr ''Red'', ''licensePlate'' \<mapsto> JStr ''MH02BB0002'']"




text \<open>A valid payload that also brings an \<^verbatim>\<open>id\<close> and a \<^verbatim>\<open>carType\<close> of its own.\<close>

definition tagged_yaris :: payload where
  "tagged_yaris = yaris(''id'' \<mapsto> JStr ''mine'', ''carType'' \<mapsto> JStr ''SUV'')"






section \<open>Properties\<close>

subsection \<open>Decimal numbers\<close>








subsection \<open>Auxiliary facts\<close>

lemma validationResult_append:
  "foldl (run_chain R b) errs rules = errs @ concat (map (chain_errors R b) rules)"
  by (induction rules arbitrary: errs) (simp_all add: run_chain_def)

lemma validationResult_concat:
  "validationResult R rules b = concat (map (chain_errors R b) rules)"
  by (simp add: validationResult_def validationResult_append)

lemma chain_errors_empty_iff: "chain_errors R b r = [] \<longleftrightarrow> \<not> violated R b r"
  by (simp add: chain_errors_def violated_def passes_def filter_empty_conv list_all_iff)

lemma validationResult_empty_iff:
  "validationResult R rules b = [] \<longleftrightarrow> (\<forall>r \<in> set rules. \<not> violated R b r)"
  by (simp add: validationResult_concat chain_errors_empty_iff)





lemma validated_car_response:
  assumes "fakeAuth st (x_user_email req) = Next u"
    and "endpoint req = PostProfileCars"
    and "validationResult R (car_rules R) (body req) = []"
  shows "app R st now req =
     \<lparr>response = (201, NewCar (newCar now (body req))),
      console = [AddingCar (newCar now (body req))], store_after = st\<rparr>"
  using assms by (simp add: app_def post_profile_cars_def)

lemma newCar_carType: "newCar now b ''carType'' = Some JNull"
  by (simp add: newCar_def)

lemma newCar_echo: "k \<noteq> ''carType'' \<Longrightarrow> b k = Some v \<Longrightarrow> newCar now b k = Some v"
  by (simp add: newCar_def map_add_def)

lemma newCar_generated_id:
  "b ''id'' = None \<Longrightarrow> newCar now b ''id'' = Some (JStr (''car-'' @ show_int now))"
  by (simp add: newCar_def map_add_def)

lemma dom_newCar: "dom (newCar now b) = dom b \<union> {''id'', ''carType''}"
  by (auto simp: newCar_def)

lemma store_after_app: "store_after (app R st now req) = st"
  by (simp add: app_def get_profile_def get_profile_appointments_def get_offerings_def
      post_profile_cars_def post_appointments_def Let_def
      split: step.splits endpoint.splits js_prop.splits)

lemma serve_store: "serve R st rs = st"
proof (induction rs arbitrary: st)
  case Nil
  show ?case by simp
next
  case (Cons a rs)
  obtain now req where a: "a = (now, req)" by (cases a)
  show ?case unfolding a by (simp add: store_after_app Cons.IH)
qed

lemma get_response_clock_free:
  "is_get req \<Longrightarrow> response (app R st now req) = response (app R st now' req)"
  by (auto simp: is_get_def app_def split: step.splits)

lemma fakeAuth_users_only: "users st' = users st \<Longrightarrow> fakeAuth st' header = fakeAuth st header"
  by (auto simp: fakeAuth_def split: option.splits)

lemma fakeAuth_Responded: "fakeAuth st header = Responded r \<Longrightarrow> r = unauthorized"
  by (auto simp: fakeAuth_def split: option.splits if_splits js_prop.splits)

lemma unknown_caller_rejected:
  assumes "x_user_email req = None \<or> x_user_email req = Some []
     \<or> (\<exists>h. x_user_email req = Some h \<and> users st h = None \<and> h \<notin> set object_prototype_keys)"
  shows "response (app R st now req) = unauthorized \<and> console (app R st now req) = []"
  using assms by (auto simp: app_def fakeAuth_def js_get_def)

lemma post_appointments_response_store_free:
  "response (post_appointments R st' u b) = response (post_appointments R st u b)"
  by (simp add: post_appointments_def Let_def)

lemma post_appointments_status:
  "fst (response (post_appointments R st u b)) \<in> {400, 201}"
  by (simp add: post_appointments_def Let_def slot_unavailable_def booked_def)


lemma fakeAuth_customer: "fakeAuth (fixtures t0) (Some ''customer@carshop.com'') = Next (Account user_1)"
  by (simp add: fakeAuth_def fixtures_def js_get_def)

lemma fakeAuth_employee: "fakeAuth (fixtures t0) (Some ''employee@carshop.com'') = Next (Account user_2)"
  by (simp add: fakeAuth_def fixtures_def js_get_def)

lemma fakeAuth_owner: "fakeAuth (fixtures t0) (Some ''owner@carshop.com'') = Next (Account user_3)"
  by (simp add: fakeAuth_def fixtures_def js_get_def)




subsection \<open>The sample requests, evaluated\<close>

lemma local_hour_1130: "local_hour ''2025-06-02T11:30'' = Some 11"
  by (simp add: local_hour_def two_digits_def digit_value_def)


lemma show_int_2021: "show_int 2021 = ''2021''"
  by (simp add: show_int_def show_nat.simps digit_char_def)

lemma show_int_2020: "show_int 2020 = ''2020''"
  by (simp add: show_int_def show_nat.simps digit_char_def)


lemma show_int_clock: "show_int 1700000000000 = ''1700000000000''"
  by (simp add: show_int_def show_nat.simps digit_char_def)

lemma booking_valid:
  "validationResult sample_runtime appointment_rules (booking ''car-1'' oid ''2025-06-02T11:30'') = []
    \<longleftrightarrow> oid \<noteq> []"
  by (simp add: validationResult_empty_iff appointment_rules_def violated_def passes_def
      booking_def sample_runtime_def local_hour_1130)

lemma yaris_valid: "validationResult sample_runtime (car_rules sample_runtime) yaris = []"
  by (simp add: validationResult_empty_iff car_rules_def violated_def passes_def yaris_def
      show_int_2021 int_literal_def digit_value_def sample_runtime_def)

lemma yaris_with_id_valid:
  "validationResult sample_runtime (car_rules sample_runtime) (yaris(''id'' \<mapsto> v)) = []"
  by (simp add: validationResult_empty_iff car_rules_def violated_def passes_def yaris_def
      show_int_2021 int_literal_def digit_value_def sample_runtime_def)

lemma jazz_valid: "validationResult sample_runtime (car_rules sample_runtime) jazz = []"
  by (simp add: validationResult_empty_iff car_rules_def violated_def passes_def jazz_def
      show_int_2020 int_literal_def digit_value_def sample_runtime_def)





subsection \<open>The authentication gate\<close>

text \<open>
  Claim C1 says that a request whose \<^verbatim>\<open>x-user-email\<close> header is absent, or names an
  email that is not in the user mapping, is answered 401 on every endpoint and never
  reaches a handler. The header value \<^verbatim>\<open>constructor\<close> is not a key of \<^verbatim>\<open>users\<close>, yet
  \<^verbatim>\<open>users["constructor"]\<close> reads the inherited member of \<^verbatim>\<open>Object.prototype\<close>, which
  is truthy: \<^verbatim>\<open>fakeAuth\<close> calls \<^verbatim>\<open>next()\<close>, and \<^verbatim>\<open>GET /api/offerings\<close> is answered
  200 with the three offerings.
\<close>

theorem fakeAuth_admits_prototype_member:
  "users (fixtures t0) ''constructor'' = None
   \<and> fakeAuth (fixtures t0) (Some ''constructor'') = Next (ProtoMember ''constructor'')
   \<and> response (app R (fixtures t0) now
        \<lparr>endpoint = GetOfferings, x_user_email = Some ''constructor'', body = b\<rparr>) =
       (200, OfferingList [offering_1, offering_2, offering_3])"
  by (simp add: app_def fixtures_def fakeAuth_def js_get_def object_prototype_keys_def
      get_offerings_def)

subsection \<open>Booking an appointment\<close>

text \<open>
  Claim C2. A signed-in \<^verbatim>\<open>POST /api/appointments\<close> whose payload passes the three
  validation chains is answered 400 with the slot-conflict message when \<^verbatim>\<open>offeringId\<close>
  is the string \<^verbatim>\<open>offering-1\<close> and the local hour of \<^verbatim>\<open>scheduledTime\<close> is 10, 11
  or 12; every other validated payload is answered 201 with the message
  \<^verbatim>\<open>Appointment booked successfully!\<close>.
\<close>

theorem appointment_slot_rule:
  assumes "fakeAuth st (x_user_email req) = Next u"
    and "endpoint req = PostAppointments"
    and "validationResult R appointment_rules (body req) = []"
  shows "response (app R st now req) =
     (if body req ''offeringId'' = Some (JStr ''offering-1'')
         \<and> (\<exists>h. getHours R (body req ''scheduledTime'') = Some h \<and> 10 \<le> h \<and> h \<le> 12)
      then (400, Message ''The selected time slot is unavailable. Please choose another time.'')
      else (201, Message ''Appointment booked successfully!''))"
  using assms
  by (auto simp: app_def post_appointments_def in_conflict_window_def slot_unavailable_def
      booked_def split: option.splits)

theorem appointment_slot_rule_witness:
  "fakeAuth (fixtures 0) (Some ''customer@carshop.com'') = Next (Account user_1)
   \<and> validationResult sample_runtime appointment_rules
        (booking ''car-1'' ''offering-1'' ''2025-06-02T11:30'') = []
   \<and> validationResult sample_runtime appointment_rules
        (booking ''car-1'' ''offering-2'' ''2025-06-02T11:30'') = []
   \<and> getHours sample_runtime (Some (JStr ''2025-06-02T11:30'')) = Some 11
   \<and> response (app sample_runtime (fixtures 0) 1700000000000
        (signed_in PostAppointments ''customer@carshop.com''
           (booking ''car-1'' ''offering-1'' ''2025-06-02T11:30''))) =
       (400, Message ''The selected time slot is unavailable. Please choose another time.'')
   \<and> response (app sample_runtime (fixtures 0) 1700000000000
        (signed_in PostAppointments ''customer@carshop.com''
           (booking ''car-1'' ''offering-2'' ''2025-06-02T11:30''))) =
       (201, Message ''Appointment booked successfully!'')"
proof -
  let ?r1 = "signed_in PostAppointments ''customer@carshop.com''
               (booking ''car-1'' ''offering-1'' ''2025-06-02T11:30'')"
  let ?r2 = "signed_in PostAppointments ''customer@carshop.com''
               (booking ''car-1'' ''offering-2'' ''2025-06-02T11:30'')"
  have a1: "fakeAuth (fixtures 0) (x_user_email ?r1) = Next (Account user_1)"
    and a2: "fakeAuth (fixtures 0) (x_user_email ?r2) = Next (Account user_1)"
    by (simp_all add: signed_in_def fakeAuth_customer)
  have e1: "endpoint ?r1 = PostAppointments" and e2: "endpoint ?r2 = PostAppointments"
    by (simp_all add: signed_in_def)
  have v1: "validationResult sample_runtime appointment_rules (body ?r1) = []"
    and v2: "validationResult sample_runtime appointment_rules (body ?r2) = []"
    by (simp_all add: signed_in_def booking_valid)
  have h: "getHours sample_runtime (Some (JStr ''2025-06-02T11:30'')) = Some 11"
    by (simp add: sample_runtime_def local_hour_1130)
  have s1: "body ?r1 ''scheduledTime'' = Some (JStr ''2025-06-02T11:30'')"
    and s2: "body ?r2 ''scheduledTime'' = Some (JStr ''2025-06-02T11:30'')"
    and o1: "body ?r1 ''offeringId'' = Some (JStr ''offering-1'')"
    and o2: "body ?r2 ''offeringId'' = Some (JStr ''offering-2'')"
    by (simp_all add: signed_in_def booking_def)
  have r1: "response (app sample_runtime (fixtures 0) 1700000000000 ?r1) =
       (400, Message ''The selected time slot is unavailable. Please choose another time.'')"
    using appointment_slot_rule [OF a1 e1 v1, of 1700000000000] by (simp add: s1 o1 h)
  have r2: "response (app sample_runtime (fixtures 0) 1700000000000 ?r2) =
       (201, Message ''Appointment booked successfully!'')"
    using appointment_slot_rule [OF a2 e2 v2, of 1700000000000] by (simp add: s2 o2 h)
  from fakeAuth_customer [of 0] v1 v2 h r1 r2 show ?thesis
    by (simp add: signed_in_def)
qed

subsection \<open>Validation errors\<close>




subsection \<open>The id of a new car\<close>

text \<open>
  Claim C4 says that a validated \<^verbatim>\<open>POST /api/profile/cars\<close> is answered 201 with a
  car whose id is freshly generated, non-empty and unique across calls. The generated id
  is \<^verbatim>\<open>car-\<close> followed by the clock reading in milliseconds, so two different cars
  registered at the same reading are answered with the same id; and the payload is spread
  over the generated id, so a payload whose own \<^verbatim>\<open>id\<close> is the empty string is answered
  with an empty id.
\<close>

theorem new_car_id_not_unique:
  "response (app sample_runtime (fixtures 0) 1700000000000
      (signed_in PostProfileCars ''customer@carshop.com'' yaris)) =
     (201, NewCar (newCar 1700000000000 yaris))
   \<and> response (app sample_runtime (fixtures 0) 1700000000000
      (signed_in PostProfileCars ''customer@carshop.com'' jazz)) =
     (201, NewCar (newCar 1700000000000 jazz))
   \<and> newCar 1700000000000 yaris ''id'' = Some (JStr ''car-1700000000000'')
   \<and> newCar 1700000000000 jazz ''id'' = Some (JStr ''car-1700000000000'')
   \<and> response (app sample_runtime (fixtures 0) 1700000000000
      (signed_in PostProfileCars ''customer@carshop.com'' (yaris(''id'' \<mapsto> JStr [])))) =
     (201, NewCar (newCar 1700000000000 (yaris(''id'' \<mapsto> JStr []))))
   \<and> newCar 1700000000000 (yaris(''id'' \<mapsto> JStr [])) ''id'' = Some (JStr [])"
proof -
  have auth: "fakeAuth (fixtures 0) (x_user_email (signed_in e ''customer@carshop.com'' b)) =
      Next (Account user_1)" for e b
    by (simp add: signed_in_def fakeAuth_customer)
  have route: "endpoint (signed_in PostProfileCars ''customer@carshop.com'' b) = PostProfileCars"
    for b by (simp add: signed_in_def)
  have v1: "validationResult sample_runtime (car_rules sample_runtime)
      (body (signed_in PostProfileCars ''customer@carshop.com'' yaris)) = []"
    by (simp add: signed_in_def yaris_valid)
  have v2: "validationResult sample_runtime (car_rules sample_runtime)
      (body (signed_in PostProfileCars ''customer@carshop.com'' jazz)) = []"
    by (simp add: signed_in_def jazz_valid)
  have v3: "validationResult sample_runtime (car_rules sample_runtime)
      (body (signed_in PostProfileCars ''customer@carshop.com'' (yaris(''id'' \<mapsto> JStr [])))) = []"
    by (simp add: signed_in_def yaris_with_id_valid)
  have r1: "response (app sample_runtime (fixtures 0) 1700000000000
      (signed_in PostProfileCars ''customer@carshop.com'' yaris)) =
     (201, NewCar (newCar 1700000000000 yaris))"
    using validated_car_response [OF auth route v1, of 1700000000000]
    by (simp add: signed_in_def)
  have r2: "response (app sample_runtime (fixtures 0) 1700000000000
      (signed_in PostProfileCars ''customer@carshop.com'' jazz)) =
     (201, NewCar (newCar 1700000000000 jazz))"
    using validated_car_response [OF auth route v2, of 1700000000000]
    by (simp add: signed_in_def)
  have r3: "response (app sample_runtime (fixtures 0) 1700000000000
      (signed_in PostProfileCars ''customer@carshop.com'' (yaris(''id'' \<mapsto> JStr [])))) =
     (201, NewCar (newCar 1700000000000 (yaris(''id'' \<mapsto> JStr []))))"
    using validated_car_response [OF auth route v3, of 1700000000000]
    by (simp add: signed_in_def)
  have n1: "yaris ''id'' = None" and n2: "jazz ''id'' = None"
    by (simp_all add: yaris_def jazz_def)
  have i1: "newCar 1700000000000 yaris ''id'' = Some (JStr ''car-1700000000000'')"
    using newCar_generated_id [of yaris 1700000000000] n1 by (simp add: show_int_clock)
  have i2: "newCar 1700000000000 jazz ''id'' = Some (JStr ''car-1700000000000'')"
    using newCar_generated_id [of jazz 1700000000000] n2 by (simp add: show_int_clock)
  have i3: "newCar 1700000000000 (yaris(''id'' \<mapsto> JStr [])) ''id'' = Some (JStr [])"
    by (rule newCar_echo) simp_all
  from r1 r2 r3 i1 i2 i3 show ?thesis by blast
qed

subsection \<open>The customer profile\<close>




subsection \<open>The fixtures never change\<close>

text \<open>
  Claim C6. Every handler leaves the store as it found it, the two POST handlers
  included, so the store after any sequence of requests is the store before it; and a GET
  request is answered the same before and after any such sequence, at any two clock
  readings.
\<close>

theorem fixtures_never_mutate:
  "store_after (app R st now req) = st
   \<and> serve R st rs = st
   \<and> (is_get req \<longrightarrow>
        response (app R (serve R st rs) now' req) = response (app R st now req))"
  using get_response_clock_free [of req R st now' now]
  by (simp add: store_after_app serve_store)

theorem fixtures_never_mutate_witness:
  "is_get (signed_in GetProfile ''customer@carshop.com'' Map.empty)
   \<and> serve sample_runtime (fixtures 0)
        [(1700000000001, signed_in PostProfileCars ''customer@carshop.com'' yaris),
         (1700000000002, signed_in PostAppointments ''customer@carshop.com''
            (booking ''car-1'' ''offering-2'' ''2025-06-02T11:30''))] = fixtures 0
   \<and> response (app sample_runtime
        (serve sample_runtime (fixtures 0)
          [(1700000000001, signed_in PostProfileCars ''customer@carshop.com'' yaris),
           (1700000000002, signed_in PostAppointments ''customer@carshop.com''
              (booking ''car-1'' ''offering-2'' ''2025-06-02T11:30''))])
        1700000000003 (signed_in GetProfile ''customer@carshop.com'' Map.empty)) =
      response (app sample_runtime (fixtures 0) 1700000000000
        (signed_in GetProfile ''customer@carshop.com'' Map.empty))"
proof -
  have g: "is_get (signed_in GetProfile ''customer@carshop.com'' Map.empty)"
    by (simp add: is_get_def signed_in_def)
  from fixtures_never_mutate [of sample_runtime "fixtures 0" 1700000000000
      "signed_in GetProfile ''customer@carshop.com'' Map.empty"
      "[(1700000000001, signed_in PostProfileCars ''customer@carshop.com'' yaris),
        (1700000000002, signed_in PostAppointments ''customer@carshop.com''
           (booking ''car-1'' ''offering-2'' ''2025-06-02T11:30''))]" 1700000000003] g
  show ?thesis by blast
qed

subsection \<open>Listing the offerings\<close>

text \<open>
  Claim C7. \<^verbatim>\<open>GET /api/offerings\<close> answers every signed-in caller, whatever the role,
  with 200 and the whole offering collection in its order; on the server's fixtures these
  are the three offerings \<^verbatim>\<open>offering-1\<close>, \<^verbatim>\<open>offering-2\<close>, \<^verbatim>\<open>offering-3\<close>.
\<close>

theorem offerings_listed_for_any_caller:
  assumes "fakeAuth st (x_user_email req) = Next u"
    and "endpoint req = GetOfferings"
  shows "response (app R st now req) = (200, OfferingList (offerings st))
     \<and> offerings (fixtures t0) = [offering_1, offering_2, offering_3]
     \<and> map offering_id (offerings (fixtures t0)) = [''offering-1'', ''offering-2'', ''offering-3'']"
  using assms
  by (simp add: app_def get_offerings_def fixtures_def offering_1_def offering_2_def
      offering_3_def)

theorem offerings_listed_for_any_caller_witness:
  "fakeAuth (fixtures 0) (Some ''customer@carshop.com'') = Next (Account user_1)
   \<and> fakeAuth (fixtures 0) (Some ''owner@carshop.com'') = Next (Account user_3)
   \<and> response (app sample_runtime (fixtures 0) 1700000000000
        (signed_in GetOfferings ''customer@carshop.com'' Map.empty)) =
       (200, OfferingList [offering_1, offering_2, offering_3])
   \<and> response (app sample_runtime (fixtures 0) 1700000000000
        (signed_in GetOfferings ''owner@carshop.com'' Map.empty)) =
       (200, OfferingList [offering_1, offering_2, offering_3])"
proof -
  let ?c = "signed_in GetOfferings ''customer@carshop.com'' Map.empty"
  let ?o = "signed_in GetOfferings ''owner@carshop.com'' Map.empty"
  have ac: "fakeAuth (fixtures 0) (x_user_email ?c) = Next (Account user_1)"
    by (simp add: signed_in_def fakeAuth_customer)
  have ao: "fakeAuth (fixtures 0) (x_user_email ?o) = Next (Account user_3)"
    by (simp add: signed_in_def fakeAuth_owner)
  have route: "endpoint (signed_in GetOfferings h b) = GetOfferings" for h b
    by (simp add: signed_in_def)
  have rc: "response (app sample_runtime (fixtures 0) 1700000000000 ?c) =
       (200, OfferingList [offering_1, offering_2, offering_3])"
    using offerings_listed_for_any_caller [OF ac route, of sample_runtime 1700000000000 0]
    by simp
  have ro: "response (app sample_runtime (fixtures 0) 1700000000000 ?o) =
       (200, OfferingList [offering_1, offering_2, offering_3])"
    using offerings_listed_for_any_caller [OF ao route, of sample_runtime 1700000000000 0]
    by simp
  show ?thesis
    by (intro conjI) (fact fakeAuth_customer fakeAuth_owner rc ro)+
qed

subsection \<open>Listing the appointments\<close>

text \<open>
  Claim C8. \<^verbatim>\<open>GET /api/profile/appointments\<close> answers every signed-in caller with 200
  and the whole appointment collection: two signed-in callers get the same answer,
  whoever they are.
\<close>

theorem appointments_unscoped:
  assumes "fakeAuth st (x_user_email req) = Next u"
    and "endpoint req = GetProfileAppointments"
    and "fakeAuth st (x_user_email req') = Next u'"
    and "endpoint req' = GetProfileAppointments"
  shows "response (app R st now req) = (200, AppointmentList (appointments st))
     \<and> response (app R st now' req') = response (app R st now req)
     \<and> appointments (fixtures t0) = [appt_1 t0]"
  using assms by (simp add: app_def get_profile_appointments_def fixtures_def)

theorem appointments_unscoped_witness:
  "fakeAuth (fixtures 0) (Some ''customer@carshop.com'') = Next (Account user_1)
   \<and> fakeAuth (fixtures 0) (Some ''employee@carshop.com'') = Next (Account user_2)
   \<and> response (app sample_runtime (fixtures 0) 1700000000000
        (signed_in GetProfileAppointments ''employee@carshop.com'' Map.empty)) =
       (200, AppointmentList [appt_1 0])
   \<and> response (app sample_runtime (fixtures 0) 1700000000001
        (signed_in GetProfileAppointments ''customer@carshop.com'' Map.empty)) =
       (200, AppointmentList [appt_1 0])
   \<and> appointment_customer (appt_1 0) = cust_1"
proof -
  let ?c = "signed_in GetProfileAppointments ''customer@carshop.com'' Map.empty"
  let ?e = "signed_in GetProfileAppointments ''employee@carshop.com'' Map.empty"
  have ac: "fakeAuth (fixtures 0) (x_user_email ?c) = Next (Account user_1)"
    by (simp add: signed_in_def fakeAuth_customer)
  have ae: "fakeAuth (fixtures 0) (x_user_email ?e) = Next (Account user_2)"
    by (simp add: signed_in_def fakeAuth_employee)
  have route: "endpoint (signed_in GetProfileAppointments h b) = GetProfileAppointments" for h b
    by (simp add: signed_in_def)
  note w = appointments_unscoped [OF ae route ac route,
      of sample_runtime 1700000000000 1700000000001 0]
  have re: "response (app sample_runtime (fixtures 0) 1700000000000 ?e) =
       (200, AppointmentList [appt_1 0])"
    using w by simp
  have rc: "response (app sample_runtime (fixtures 0) 1700000000001 ?c) =
       (200, AppointmentList [appt_1 0])"
    using w by simp
  have cu: "appointment_customer (appt_1 0) = cust_1"
    by (simp add: appt_1_def)
  show ?thesis
    by (intro conjI) (fact fakeAuth_customer fakeAuth_employee re rc cu)+
qed

subsection \<open>The fields of a new car\<close>

text \<open>
  Claim C9. A validated \<^verbatim>\<open>POST /api/profile/cars\<close> of a signed-in caller is answered
  201 with the object \<^verbatim>\<open>{id, ...req.body, carType: null}\<close>: \<^verbatim>\<open>carType\<close> is
  \<^verbatim>\<open>null\<close> whatever the payload says, every other field of the payload is echoed as it
  is, a payload that has an \<^verbatim>\<open>id\<close> keeps its own, and only a payload without one gets
  the generated id.
\<close>

theorem new_car_spread_order:
  assumes "fakeAuth st (x_user_email req) = Next u"
    and "endpoint req = PostProfileCars"
    and "validationResult R (car_rules R) (body req) = []"
  shows "response (app R st now req) = (201, NewCar (newCar now (body req)))
     \<and> newCar now (body req) ''carType'' = Some JNull
     \<and> (\<forall>k v. k \<noteq> ''carType'' \<and> body req k = Some v \<longrightarrow> newCar now (body req) k = Some v)
     \<and> (\<forall>v. body req ''id'' = Some v \<longrightarrow> newCar now (body req) ''id'' = Some v)
     \<and> (body req ''id'' = None \<longrightarrow>
          newCar now (body req) ''id'' = Some (JStr (''car-'' @ show_int now)))
     \<and> dom (newCar now (body req)) = dom (body req) \<union> {''id'', ''carType''}"
proof (intro conjI)
  show "response (app R st now req) = (201, NewCar (newCar now (body req)))"
    by (simp add: validated_car_response [OF assms])
qed (simp_all add: newCar_carType newCar_echo newCar_generated_id dom_newCar)

theorem new_car_spread_order_witness:
  "validationResult sample_runtime (car_rules sample_runtime) tagged_yaris = []
   \<and> tagged_yaris ''id'' = Some (JStr ''mine'') \<and> tagged_yaris ''carType'' = Some (JStr ''SUV'')
   \<and> response (app sample_runtime (fixtures 0) 1700000000000
        (signed_in PostProfileCars ''customer@carshop.com'' tagged_yaris)) =
       (201, NewCar (newCar 1700000000000 tagged_yaris))
   \<and> newCar 1700000000000 tagged_yaris ''id'' = Some (JStr ''mine'')
   \<and> newCar 1700000000000 tagged_yaris ''carType'' = Some JNull
   \<and> newCar 1700000000000 tagged_yaris ''make'' = Some (JStr ''Toyota'')
   \<and> newCar 1700000000000 tagged_yaris ''year'' = Some (JNum 2021)
   \<and> yaris ''id'' = None
   \<and> newCar 1700000000000 yaris ''id'' = Some (JStr ''car-1700000000000'')"
proof -
  let ?p = "signed_in PostProfileCars ''customer@carshop.com'' tagged_yaris"
  let ?y = "signed_in PostProfileCars ''customer@carshop.com'' yaris"
  have ap: "fakeAuth (fixtures 0) (x_user_email ?p) = Next (Account user_1)"
    and ay: "fakeAuth (fixtures 0) (x_user_email ?y) = Next (Account user_1)"
    by (simp_all add: signed_in_def fakeAuth_customer)
  have ep: "endpoint ?p = PostProfileCars" and ey: "endpoint ?y = PostProfileCars"
    by (simp_all add: signed_in_def)
  have bp: "body ?p = tagged_yaris" and by': "body ?y = yaris"
    by (simp_all add: signed_in_def)
  have vp: "validationResult sample_runtime (car_rules sample_runtime) tagged_yaris = []"
    by (simp add: validationResult_empty_iff car_rules_def violated_def passes_def
        tagged_yaris_def yaris_def show_int_2021 int_literal_def digit_value_def
        sample_runtime_def)
  have fields: "tagged_yaris ''id'' = Some (JStr ''mine'')" "tagged_yaris ''carType'' = Some (JStr ''SUV'')"
    "tagged_yaris ''make'' = Some (JStr ''Toyota'')" "tagged_yaris ''year'' = Some (JNum 2021)"
    "yaris ''id'' = None"
    by (simp_all add: tagged_yaris_def yaris_def)
  note p = new_car_spread_order [OF ap ep, of sample_runtime 1700000000000, unfolded bp, OF vp]
  note y = new_car_spread_order [OF ay ey, of sample_runtime 1700000000000, unfolded by',
      OF yaris_valid]
  note p1 = p [THEN conjunct1]
  note p2 = p [THEN conjunct2, THEN conjunct1]
  note p3 = p [THEN conjunct2, THEN conjunct2, THEN conjunct1]
  note y5 = y [THEN conjunct2, THEN conjunct2, THEN conjunct2, THEN conjunct2, THEN conjunct1]
  have q1: "newCar 1700000000000 tagged_yaris ''id'' = Some (JStr ''mine'')"
    using p3 [rule_format, of "''id''" "JStr ''mine''"] fields(1) by simp
  have q2: "newCar 1700000000000 tagged_yaris ''make'' = Some (JStr ''Toyota'')"
    using p3 [rule_format, of "''make''" "JStr ''Toyota''"] fields(3) by simp
  have q3: "newCar 1700000000000 tagged_yaris ''year'' = Some (JNum 2021)"
    using p3 [rule_format, of "''year''" "JNum 2021"] fields(4) by simp
  have q4: "newCar 1700000000000 yaris ''id'' = Some (JStr ''car-1700000000000'')"
    using y5 fields(5) by (simp add: show_int_clock)
  show ?thesis
    by (intro conjI) (fact vp fields(1) fields(2) p1 q1 p2 q2 q3 fields(5) q4)+
qed

subsection \<open>Unchecked ids in a booking\<close>

text \<open>
  Claim C10. \<^verbatim>\<open>POST /api/appointments\<close> is answered 401, 400 or 201, never 404, and
  its answer is the same on any store with the same users: it does not read the cars or
  the offerings. For a signed-in caller with a non-empty \<^verbatim>\<open>carId\<close>, a non-empty
  \<^verbatim>\<open>offeringId\<close> and a \<^verbatim>\<open>scheduledTime\<close> that is ISO 8601, the answer is 201 unless
  \<^verbatim>\<open>offeringId\<close> is \<^verbatim>\<open>offering-1\<close> and the local hour is 10, 11 or 12.
\<close>

theorem appointment_ids_unchecked:
  assumes route: "endpoint req = PostAppointments"
  shows "fst (response (app R st now req)) \<in> {401, 400, 201}
     \<and> fst (response (app R st now req)) \<noteq> 404
     \<and> (users st' = users st \<longrightarrow> response (app R st' now req) = response (app R st now req))
     \<and> (fakeAuth st (x_user_email req) = Next u
          \<and> passes R NotEmpty (body req ''carId'')
          \<and> passes R NotEmpty (body req ''offeringId'')
          \<and> passes R IsISO8601 (body req ''scheduledTime'') \<longrightarrow>
          response (app R st now req) =
            (if body req ''offeringId'' = Some (JStr ''offering-1'')
                \<and> (\<exists>h. getHours R (body req ''scheduledTime'') = Some h \<and> 10 \<le> h \<and> h \<le> 12)
             then (400, Message ''The selected time slot is unavailable. Please choose another time.'')
             else (201, Message ''Appointment booked successfully!'')))"
proof -
  have status: "fst (response (app R st now req)) \<in> {401, 400, 201}"
  proof (cases "fakeAuth st (x_user_email req)")
    case (Responded r)
    then show ?thesis
      by (simp add: app_def fakeAuth_Responded [OF Responded] unauthorized_def)
  next
    case (Next v)
    with route post_appointments_status [of R st v "body req"] show ?thesis
      by (auto simp: app_def)
  qed
  then have not_found: "fst (response (app R st now req)) \<noteq> 404"
    by auto
  have store_free: "response (app R st' now req) = response (app R st now req)"
    if "users st' = users st"
    using route fakeAuth_users_only [OF that, of "x_user_email req"]
    by (simp add: app_def post_appointments_response_store_free [of R st' _ "body req" st]
        split: step.splits)
  have accepted: "response (app R st now req) =
            (if body req ''offeringId'' = Some (JStr ''offering-1'')
                \<and> (\<exists>h. getHours R (body req ''scheduledTime'') = Some h \<and> 10 \<le> h \<and> h \<le> 12)
             then (400, Message ''The selected time slot is unavailable. Please choose another time.'')
             else (201, Message ''Appointment booked successfully!''))"
    if auth: "fakeAuth st (x_user_email req) = Next u"
      and "passes R NotEmpty (body req ''carId'')"
      and "passes R NotEmpty (body req ''offeringId'')"
      and "passes R IsISO8601 (body req ''scheduledTime'')"
  proof -
    from that(2-4) have "validationResult R appointment_rules (body req) = []"
      by (simp add: validationResult_empty_iff appointment_rules_def violated_def)
    with auth route show ?thesis
      by (auto simp: app_def post_appointments_def in_conflict_window_def slot_unavailable_def
          booked_def split: option.splits)
  qed
  from status not_found store_free accepted show ?thesis by blast
qed

theorem appointment_ids_unchecked_witness:
  "fakeAuth (fixtures 0) (Some ''customer@carshop.com'') = Next (Account user_1)
   \<and> cars (fixtures 0) ''car-999'' = None
   \<and> passes sample_runtime NotEmpty (Some (JStr ''car-999''))
   \<and> passes sample_runtime NotEmpty (Some (JStr ''offering-404''))
   \<and> passes sample_runtime IsISO8601 (Some (JStr ''2025-06-02T11:30''))
   \<and> response (app sample_runtime (fixtures 0) 1700000000000
        (signed_in PostAppointments ''customer@carshop.com''
           (booking ''car-999'' ''offering-404'' ''2025-06-02T11:30''))) =
       (201, Message ''Appointment booked successfully!'')"
proof -
  let ?b = "booking ''car-999'' ''offering-404'' ''2025-06-02T11:30''"
  let ?req = "signed_in PostAppointments ''customer@carshop.com'' ?b"
  have route: "endpoint ?req = PostAppointments"
    by (simp add: signed_in_def)
  have auth: "fakeAuth (fixtures 0) (x_user_email ?req) = Next (Account user_1)"
    by (simp add: signed_in_def fakeAuth_customer)
  have fields: "body ?req ''carId'' = Some (JStr ''car-999'')"
    "body ?req ''offeringId'' = Some (JStr ''offering-404'')"
    "body ?req ''scheduledTime'' = Some (JStr ''2025-06-02T11:30'')"
    by (simp_all add: signed_in_def booking_def)
  have ok: "passes sample_runtime NotEmpty (Some (JStr ''car-999''))"
    "passes sample_runtime NotEmpty (Some (JStr ''offering-404''))"
    "passes sample_runtime IsISO8601 (Some (JStr ''2025-06-02T11:30''))"
    by (simp_all add: passes_def sample_runtime_def local_hour_1130)
  have no_car: "cars (fixtures 0) ''car-999'' = None"
    by (simp add: fixtures_def)
  note w = appointment_ids_unchecked [OF route, of sample_runtime "fixtures 0" 1700000000000
      "fixtures 0" "Account user_1", THEN conjunct2, THEN conjunct2, THEN conjunct2,
      unfolded fields]
  have r: "response (app sample_runtime (fixtures 0) 1700000000000 ?req) =
       (201, Message ''Appointment booked successfully!'')"
    using w auth ok by simp
  show ?thesis
    by (intro conjI) (fact fakeAuth_customer no_car ok r)+
qed

end
